theory Spec2Isabelle
  imports Complex_Main
begin

section \<open>Data model (prisma schema)\<close>

text \<open>
  The Prisma schema declares two tables. A row is a record; a table is a finite map from
  the primary key \<open>id\<close> to the row. Columns that no controller under study reads
  (password, certificateUrl, university, department, phone numbers, the user's own
  timestamps) are left out of \<open>user\<close>.
\<close>

datatype Role = ADMIN | TUTOR | STUDENT

record user =
  firstName :: string
  lastName :: string
  email :: string
  role :: Role
  isApproved :: bool

text \<open>
  A JavaScript number as \<open>Number(price)\<close> returns it. Only the comparisons of
  \<open>reviewAndSetPrice\<close> are modelled, not floating-point rounding.
\<close>

datatype jsnum = NaN | Num real | PosInfinity | NegInfinity

record assignment =
  studentId :: string
  title :: string
  description :: string
  programSpecialty :: string
  fileUrl :: string
  status :: string
  submittedAt :: nat
  assignedTutorId :: "string option"
  tutorCharge :: "jsnum option"
  paidAt :: "nat option"
  isPaid :: bool
  completedFileUrl :: "string option"
  completedAt :: "nat option"

text \<open>
  An outgoing mail is recorded by recipient and subject; \<open>sendEmail\<close> swallows its own
  errors, so sending never fails. The body text is not modelled.
\<close>

datatype mail = Mail string string

text \<open>
  The state a request runs against: both tables, the mails sent so far (oldest first) and
  the environment variable \<open>ADMIN_EMAIL\<close>. The user table is kept as its rows
  \<open>(id, user)\<close> in storage order, since \<open>findFirst\<close> may be asked for the first row
  that passes a filter without an id; \<open>users\<close> is the lookup by id.
\<close>

record state =
  assignments :: "string \<Rightarrow> assignment option"
  userRows :: "(string \<times> user) list"
  outbox :: "mail list"
  ADMIN_EMAIL :: string

definition users :: "state \<Rightarrow> string \<Rightarrow> user option" where
  "users s = map_of (userRows s)"

text \<open>
  A field of a JSON request body as the handler reads it: missing (\<open>undefined\<close>),
  \<open>null\<close>, or a value.
\<close>

datatype 'a jsval = Undefined | Null | Val 'a

text \<open>
  The decoded session token, \<open>req.user\<close>. \<open>login\<close> signs \<open>{id, role, email}\<close>;
  \<open>adminLogin\<close> signs \<open>{role, email}\<close> with no id, so the id is optional.
\<close>

record decoded =
  uid :: "string option"
  urole :: Role
  uemail :: "string option"

datatype credential = NoToken | InvalidToken | Token decoded

text \<open>
  Responses: a JSON body under a status code, or a redirect. Messages that interpolate a
  formatted price or a name are recorded without the interpolated part.
\<close>

datatype body =
    Message string
  | AssignmentJson string assignment "user option" "user option"
  | MessageAssignment string string assignment "user option"

datatype response = Json nat body | Redirect string

section \<open>JavaScript and Prisma conventions\<close>

text \<open>\<open>!v\<close> on a possibly missing string: missing and the empty string are both falsy.\<close>

definition falsy :: "string option \<Rightarrow> bool" where
  "falsy v = (case v of None \<Rightarrow> True | Some s \<Rightarrow> s = [])"

text \<open>
  A field of a Prisma \<open>where\<close> clause whose value is \<open>undefined\<close> is no filter at
  all; a defined value must equal the column.
\<close>

definition whereEq :: "'a option \<Rightarrow> 'a \<Rightarrow> bool" where
  "whereEq f v = (case f of None \<Rightarrow> True | Some x \<Rightarrow> x = v)"

text \<open>
  The same rule for a body field used as a filter. (\<open>null\<close> never reaches the filter:
  see \<open>assignAssignmentToTutor\<close>.)
\<close>

fun whereField :: "'a jsval \<Rightarrow> 'a \<Rightarrow> bool" where
  "whereField Undefined v = True"
| "whereField Null v = False"
| "whereField (Val x) v = (x = v)"

text \<open>
  A field of a Prisma \<open>data\<close> clause: \<open>undefined\<close> leaves the column as it is,
  \<open>null\<close> stores NULL, a value stores the value.
\<close>

fun dataField :: "'a jsval \<Rightarrow> 'a option \<Rightarrow> 'a option" where
  "dataField Undefined old = old"
| "dataField Null old = None"
| "dataField (Val x) old = Some x"

text \<open>
  A number written to a Float column: a non-finite number goes over the wire as
  \<open>null\<close> and is stored as NULL.
\<close>

fun storedFloat :: "jsnum \<Rightarrow> jsnum option" where
  "storedFloat (Num r) = Some (Num r)"
| "storedFloat NaN = None"
| "storedFloat PosInfinity = None"
| "storedFloat NegInfinity = None"

text \<open>\<open>isNaN(price) || price <= 0\<close>.\<close>

fun invalidPrice :: "jsnum \<Rightarrow> bool" where
  "invalidPrice NaN = True"
| "invalidPrice (Num r) = (r \<le> 0)"
| "invalidPrice PosInfinity = False"
| "invalidPrice NegInfinity = True"

definition updateAssignment :: "state \<Rightarrow> string \<Rightarrow> assignment \<Rightarrow> state" where
  "updateAssignment s aid a = s\<lparr>assignments := (assignments s)(aid \<mapsto> a)\<rparr>"

definition sendEmail :: "state \<Rightarrow> string \<Rightarrow> string \<Rightarrow> state" where
  "sendEmail s rcpt subj = s\<lparr>outbox := outbox s @ [Mail rcpt subj]\<rparr>"

definition serverError :: response where
  "serverError = Json 500 (Message ''Something went wrong'')"

section \<open>Middleware\<close>

definition authMiddleware :: "credential \<Rightarrow> response + decoded" where
  "authMiddleware c =
     (case c of
        NoToken \<Rightarrow> Inl (Json 401 (Message ''Access Denied. No token provided.''))
      | InvalidToken \<Rightarrow> Inl (Json 403 (Message ''Invalid Token''))
      | Token d \<Rightarrow>
          if falsy (uemail d) then Inl (Json 400 (Message ''Email is missing from token.''))
          else Inr d)"

definition roleMiddleware :: "Role list \<Rightarrow> decoded \<Rightarrow> response option" where
  "roleMiddleware roles d =
     (if urole d \<in> set roles then None else Some (Json 403 (Message ''Access Denied'')))"

section \<open>Assignment controller\<close>

definition assignAssignment :: "state \<Rightarrow> string \<Rightarrow> state \<times> response" where
  "assignAssignment s assignmentId =
     (case assignments s assignmentId of
        None \<Rightarrow> (s, Json 404 (Message ''Assignment not found''))
      | Some a \<Rightarrow>
          (updateAssignment s assignmentId (a\<lparr>status := ''Assigned''\<rparr>),
           Json 200 (Message
             ''Assignment is now open for tutors with matching program specialty.'')))"

text \<open>The \<open>where\<close> clause of \<open>getTutorPendingAssignments\<close>, as a test on one row.\<close>

definition tutorPendingWhere :: "string \<Rightarrow> assignment \<Rightarrow> bool" where
  "tutorPendingWhere specialty a =
     (programSpecialty a = specialty \<and> status a = ''Assigned'' \<and> assignedTutorId a = None)"

text \<open>
  \<open>reviewAndSetPrice\<close>. The row is looked up by id and \<open>assignedTutorId\<close> together.
  The update precedes the mails; reading \<open>assignment.Student.email\<close> of a missing student
  throws after the update, which the handler's \<open>catch\<close> turns into a 500.
\<close>

definition reviewAndSetPrice :: "state \<Rightarrow> decoded \<Rightarrow> string \<Rightarrow> jsnum \<Rightarrow> state \<times> response" where
  "reviewAndSetPrice s d assignmentId price =
     (if falsy (uid d) then (s, Json 401 (Message ''Unauthorized.''))
      else if invalidPrice price then
        (s, Json 400 (Message ''Invalid price. It must be a positive number.''))
      else
        (case assignments s assignmentId of
           None \<Rightarrow> (s, Json 404 (Message ''Assignment not found or not assigned to you.''))
         | Some a \<Rightarrow>
             if assignedTutorId a \<noteq> uid d then
               (s, Json 404 (Message ''Assignment not found or not assigned to you.''))
             else if status a \<noteq> ''Assigned'' then
               (s, Json 400 (Message ''Assignment is not in an assignable state.''))
             else
               (let s1 = updateAssignment s assignmentId
                           (a\<lparr>status := ''In Progress'', tutorCharge := storedFloat price\<rparr>)
                in case users s (studentId a) of
                     None \<Rightarrow> (s1, serverError)
                   | Some st \<Rightarrow>
                       (sendEmail
                          (sendEmail s1 (email st) ''Assignment Accepted and Priced'')
                          (ADMIN_EMAIL s) ''Tutor Accepted and Priced Assignment'',
                        Json 200 (Message ''Assignment accepted and price set.'')))))"

definition getAssignmentById :: "state \<Rightarrow> string \<Rightarrow> state \<times> response" where
  "getAssignmentById s assignmentId =
     (case assignments s assignmentId of
        None \<Rightarrow> (s, Json 404 (Message ''Assignment not found''))
      | Some a \<Rightarrow>
          (s, Json 200 (AssignmentJson assignmentId a
                 (users s (studentId a))
                 (case assignedTutorId a of None \<Rightarrow> None | Some t \<Rightarrow> users s t))))"

text \<open>
  \<open>assignAssignmentToTutor\<close>. \<open>tutorId\<close> is read from the request body and is not
  validated. The tutor is the first user row that passes the filter on id, role and
  approval together; a missing \<open>tutorId\<close> is no filter on the id, so that any approved
  tutor is found, and the update then writes the status and leaves \<open>assignedTutorId\<close> as
  it is. A \<open>null\<close> \<open>tutorId\<close> is refused by the query (the id column is not
  nullable): the query throws and the handler answers 500.
\<close>

definition assignAssignmentToTutor ::
  "state \<Rightarrow> string \<Rightarrow> string jsval \<Rightarrow> state \<times> response" where
  "assignAssignmentToTutor s assignmentId tutorId =
     (case assignments s assignmentId of
        None \<Rightarrow> (s, Json 404 (Message ''Assignment not found''))
      | Some a \<Rightarrow>
          if tutorId = Null then (s, serverError)
          else
            (case List.find
                    (\<lambda>(k, u). whereField tutorId k \<and> role u = TUTOR \<and> isApproved u)
                    (userRows s) of
               None \<Rightarrow> (s, Json 404 (Message ''Tutor not found or not approved.''))
             | Some (k, t) \<Rightarrow>
                 (sendEmail
                    (sendEmail
                       (updateAssignment s assignmentId
                          (a\<lparr>assignedTutorId := dataField tutorId (assignedTutorId a),
                             status := ''Assigned''\<rparr>))
                       (email t) ''New Assignment Assigned to You'')
                    (ADMIN_EMAIL s) ''Assignment Assigned Notification'',
                  Json 200 (Message ''Assignment assigned to tutor''))))"

text \<open>
  \<open>completeAssignment\<close> updates by id alone, without reading the row first: a missing
  row makes the update throw (500). \<open>fileUrl\<close> is read from the body and is not
  validated: when it is missing the column stays as it is, when it is \<open>null\<close> the
  column is set to NULL. \<open>now\<close> is the value of \<open>new Date()\<close>. The 404 for a
  student without an e-mail address is answered after the update.
\<close>

definition completeAssignment ::
  "state \<Rightarrow> decoded \<Rightarrow> string \<Rightarrow> string jsval \<Rightarrow> nat \<Rightarrow> state \<times> response" where
  "completeAssignment s d assignmentId fileUrlArg now =
     (case assignments s assignmentId of
        None \<Rightarrow> (s, serverError)
      | Some a \<Rightarrow>
          (let a1 = a\<lparr>status := ''Completed'',
                       completedFileUrl := dataField fileUrlArg (completedFileUrl a),
                       completedAt := Some now\<rparr>;
               s1 = updateAssignment s assignmentId a1
           in case users s (studentId a) of
                None \<Rightarrow> (s1, Json 404 (Message ''Student or assignment not found.''))
              | Some st \<Rightarrow>
                  if email st = [] then
                    (s1, Json 404 (Message ''Student or assignment not found.''))
                  else
                    (sendEmail s1 (email st) ''Your Assignment is Completed'',
                     Json 200 (MessageAssignment ''Assignment marked as completed.''
                                 assignmentId a1 (Some st)))))"

definition downloadAssignment :: "state \<Rightarrow> string \<Rightarrow> state \<times> response" where
  "downloadAssignment s assignmentId =
     (case assignments s assignmentId of
        None \<Rightarrow> (s, Json 404 (Message ''Completed file not found.''))
      | Some a \<Rightarrow>
          (case completedFileUrl a of
             None \<Rightarrow> (s, Json 404 (Message ''Completed file not found.''))
           | Some u \<Rightarrow>
               if u = [] then (s, Json 404 (Message ''Completed file not found.''))
               else (s, Redirect u)))"

text \<open>
  \<open>downloadSolutionFile\<close> looks the row up by id and \<open>studentId = req.user?.id\<close>; a
  token without an id gives no filter on the owner.
\<close>

definition downloadSolutionFile :: "state \<Rightarrow> decoded \<Rightarrow> string \<Rightarrow> state \<times> response" where
  "downloadSolutionFile s d assignmentId =
     (case assignments s assignmentId of
        None \<Rightarrow> (s, Json 404 (Message ''Assignment not found.''))
      | Some a \<Rightarrow>
          if \<not> whereEq (uid d) (studentId a) then
            (s, Json 404 (Message ''Assignment not found.''))
          else if \<not> isPaid a then
            (s, Json 403 (Message
               ''Access denied. Payment required to download the solution.''))
          else
            (case completedFileUrl a of
               None \<Rightarrow> (s, Json 404 (Message ''Solution file not found.''))
             | Some u \<Rightarrow>
                 if u = [] then (s, Json 404 (Message ''Solution file not found.''))
                 else (s, Redirect u)))"

definition markAssignmentAsPaid :: "state \<Rightarrow> string \<Rightarrow> state \<times> response" where
  "markAssignmentAsPaid s assignmentId =
     (case assignments s assignmentId of
        None \<Rightarrow> (s, Json 404 (Message ''Assignment not found.''))
      | Some a \<Rightarrow>
          if isPaid a then (s, Json 400 (Message ''Assignment is already marked as paid.''))
          else
            (updateAssignment s assignmentId (a\<lparr>isPaid := True\<rparr>),
             Json 200 (Message ''Assignment marked as paid successfully.'')))"

definition rejectAssignment :: "state \<Rightarrow> string \<Rightarrow> state \<times> response" where
  "rejectAssignment s assignmentId =
     (case assignments s assignmentId of
        None \<Rightarrow> (s, Json 404 (Message ''Assignment not found.''))
      | Some a \<Rightarrow>
          if status a \<noteq> ''Assigned'' then
            (s, Json 400 (Message ''Assignment is not in an assignable state.''))
          else
            (updateAssignment s assignmentId (a\<lparr>status := ''Rejected''\<rparr>),
             Json 200 (Message ''Assignment rejected successfully.'')))"

section \<open>Payment controller\<close>

text \<open>
  What the gateway client \<open>verifyPayment\<close> returns for a reference: it throws (network
  failure or a non-2xx answer), or it returns \<open>data.status\<close> and
  \<open>data.metadata.assignmentId\<close>. A successful answer with no \<open>metadata\<close> object
  at all makes the handler itself throw and counts as \<open>Throws\<close>. The gateway is a
  parameter of the handler.
\<close>

datatype verification = Throws | Data string "string option"

definition verifyPaymentForAssignment ::
  "(string \<Rightarrow> verification) \<Rightarrow> state \<Rightarrow> string option \<Rightarrow> state \<times> response" where
  "verifyPaymentForAssignment verifyPayment s reference =
     (case reference of
        None \<Rightarrow> (s, Json 400 (Message ''Payment reference is required.''))
      | Some r \<Rightarrow>
          if r = [] then (s, Json 400 (Message ''Payment reference is required.''))
          else
            (case verifyPayment r of
               Throws \<Rightarrow> (s, serverError)
             | Data st meta \<Rightarrow>
                 if st = ''success'' then
                   (case meta of
                      None \<Rightarrow> (s, Json 400 (Message
                                 ''Assignment ID missing from payment verification data.''))
                    | Some assignmentId \<Rightarrow>
                        if assignmentId = [] then
                          (s, Json 400 (Message
                             ''Assignment ID missing from payment verification data.''))
                        else
                          (case assignments s assignmentId of
                             None \<Rightarrow> (s, serverError)
                           | Some a \<Rightarrow>
                               (let a1 = a\<lparr>isPaid := True\<rparr>;
                                    s1 = updateAssignment s assignmentId a1;
                                    student = users s (studentId a)
                                in ((case student of
                                       None \<Rightarrow> s1
                                     | Some u \<Rightarrow>
                                         if email u \<noteq> [] \<and> \<not> falsy (completedFileUrl a1)
                                         then sendEmail s1 (email u)
                                                ''Assignment Solution Available''
                                         else s1),
                                    Json 200 (MessageAssignment
                                      ''Payment verified successfully!''
                                      assignmentId a1 student)))))
                 else (s, Json 400 (Message ''Payment verification failed.''))))"

section \<open>Routes\<close>

text \<open>
  Every route runs \<open>authMiddleware\<close>, then \<open>roleMiddleware\<close> where the router names
  roles, then the controller.
\<close>

definition guarded ::
  "credential \<Rightarrow> Role list option \<Rightarrow> state \<Rightarrow> (decoded \<Rightarrow> state \<times> response)
     \<Rightarrow> state \<times> response" where
  "guarded c roles s h =
     (case authMiddleware c of
        Inl r \<Rightarrow> (s, r)
      | Inr d \<Rightarrow>
          (case roles of
             None \<Rightarrow> h d
           | Some rs \<Rightarrow>
               (case roleMiddleware rs d of
                  Some r \<Rightarrow> (s, r)
                | None \<Rightarrow> h d)))"

definition route_markPaid :: "state \<Rightarrow> credential \<Rightarrow> string \<Rightarrow> state \<times> response" where
  "route_markPaid s c assignmentId =
     guarded c (Some [ADMIN, STUDENT]) s (\<lambda>d. markAssignmentAsPaid s assignmentId)"

definition route_assign ::
  "state \<Rightarrow> credential \<Rightarrow> string \<Rightarrow> string jsval \<Rightarrow> state \<times> response" where
  "route_assign s c assignmentId tutorId =
     guarded c (Some [ADMIN]) s (\<lambda>d. assignAssignmentToTutor s assignmentId tutorId)"

definition route_reviewAndPrice ::
  "state \<Rightarrow> credential \<Rightarrow> string \<Rightarrow> jsnum \<Rightarrow> state \<times> response" where
  "route_reviewAndPrice s c assignmentId price =
     guarded c (Some [TUTOR]) s (\<lambda>d. reviewAndSetPrice s d assignmentId price)"

definition route_getById :: "state \<Rightarrow> credential \<Rightarrow> string \<Rightarrow> state \<times> response" where
  "route_getById s c assignmentId =
     guarded c None s (\<lambda>d. getAssignmentById s assignmentId)"

definition route_complete ::
  "state \<Rightarrow> credential \<Rightarrow> string \<Rightarrow> string jsval \<Rightarrow> nat \<Rightarrow> state \<times> response" where
  "route_complete s c assignmentId fileUrlArg now =
     guarded c (Some [TUTOR]) s (\<lambda>d. completeAssignment s d assignmentId fileUrlArg now)"

definition route_download :: "state \<Rightarrow> credential \<Rightarrow> string \<Rightarrow> state \<times> response" where
  "route_download s c assignmentId =
     guarded c None s (\<lambda>d. downloadAssignment s assignmentId)"

definition route_downloadCompleted :: "state \<Rightarrow> credential \<Rightarrow> string \<Rightarrow> state \<times> response" where
  "route_downloadCompleted s c assignmentId =
     guarded c None s (\<lambda>d. downloadSolutionFile s d assignmentId)"

definition route_reject :: "state \<Rightarrow> credential \<Rightarrow> string \<Rightarrow> state \<times> response" where
  "route_reject s c assignmentId =
     guarded c (Some [TUTOR]) s (\<lambda>d. rejectAssignment s assignmentId)"

definition route_verify ::
  "(string \<Rightarrow> verification) \<Rightarrow> state \<Rightarrow> credential \<Rightarrow> string option \<Rightarrow> state \<times> response" where
  "route_verify verifyPayment s c reference =
     guarded c None s (\<lambda>d. verifyPaymentForAssignment verifyPayment s reference)"

section \<open>Concrete data for evaluation\<close>

definition alice :: user where
  "alice = \<lparr>firstName = ''Alice'', lastName = ''Mensah'', email = ''alice@example.com'',
            role = STUDENT, isApproved = True\<rparr>"

definition bob :: user where
  "bob = \<lparr>firstName = ''Bob'', lastName = ''Owusu'', email = ''bob@example.com'',
          role = STUDENT, isApproved = True\<rparr>"

definition tina :: user where
  "tina = \<lparr>firstName = ''Tina'', lastName = ''Asare'', email = ''tina@example.com'',
           role = TUTOR, isApproved = True\<rparr>"

definition tom :: user where
  "tom = \<lparr>firstName = ''Tom'', lastName = ''Boateng'', email = ''tom@example.com'',
          role = TUTOR, isApproved = True\<rparr>"

definition uma :: user where
  "uma = \<lparr>firstName = ''Uma'', lastName = ''Darko'', email = ''uma@example.com'',
          role = TUTOR, isApproved = False\<rparr>"

definition demoUsers :: "(string \<times> user) list" where
  "demoUsers = [(''s1'', alice), (''s2'', bob), (''t1'', tina), (''t2'', tom), (''t3'', uma)]"

definition aliceToken :: decoded where
  "aliceToken = \<lparr>uid = Some ''s1'', urole = STUDENT, uemail = Some ''alice@example.com''\<rparr>"

definition bobToken :: decoded where
  "bobToken = \<lparr>uid = Some ''s2'', urole = STUDENT, uemail = Some ''bob@example.com''\<rparr>"

definition tinaToken :: decoded where
  "tinaToken = \<lparr>uid = Some ''t1'', urole = TUTOR, uemail = Some ''tina@example.com''\<rparr>"

definition tomToken :: decoded where
  "tomToken = \<lparr>uid = Some ''t2'', urole = TUTOR, uemail = Some ''tom@example.com''\<rparr>"

definition adminToken :: decoded where
  "adminToken = \<lparr>uid = None, urole = ADMIN, uemail = Some ''admin@aplusplanner.com''\<rparr>"

text \<open>Alice's assignment as submitted, and as it stands after each step of the lifecycle.\<close>

definition essay :: assignment where
  "essay = \<lparr>studentId = ''s1'', title = ''Essay'', description = ''Macro essay'',
            programSpecialty = ''Econ'', fileUrl = ''https://files.example/essay.pdf'',
            status = ''Pending'', submittedAt = 100, assignedTutorId = None,
            tutorCharge = None, paidAt = None, isPaid = False, completedFileUrl = None,
            completedAt = None\<rparr>"

definition assigned :: assignment where
  "assigned = essay\<lparr>status := ''Assigned'', assignedTutorId := Some ''t1''\<rparr>"

definition priced :: assignment where
  "priced = assigned\<lparr>status := ''In Progress'', tutorCharge := Some (Num 50)\<rparr>"

definition solved :: assignment where
  "solved = priced\<lparr>status := ''Completed'',
                    completedFileUrl := Some ''https://files.example/solution.pdf'',
                    completedAt := Some 300\<rparr>"

definition rejected :: assignment where
  "rejected = assigned\<lparr>status := ''Rejected''\<rparr>"

text \<open>Bob's assignment, completed by Tom and paid.\<close>

definition lab :: assignment where
  "lab = \<lparr>studentId = ''s2'', title = ''Lab'', description = ''Lab report'',
          programSpecialty = ''Physics'', fileUrl = ''https://files.example/lab.pdf'',
          status = ''Completed'', submittedAt = 90, assignedTutorId = Some ''t2'',
          tutorCharge = Some (Num 30), paidAt = None, isPaid = True,
          completedFileUrl = Some ''https://files.example/lab-solution.pdf'',
          completedAt = Some 200\<rparr>"

definition demo :: "assignment \<Rightarrow> state" where
  "demo a = \<lparr>assignments = [''a1'' \<mapsto> a, ''a2'' \<mapsto> lab], userRows = demoUsers, outbox = [],
             ADMIN_EMAIL = ''admin@aplusplanner.com''\<rparr>"

text \<open>A gateway that knows one successful reference, paid for assignment \<open>a1\<close>.\<close>

definition demoGateway :: "string \<Rightarrow> verification" where
  "demoGateway r = (if r = ''ref-1'' then Data ''success'' (Some ''a1'') else Data ''failed'' None)"

section \<open>The data model's relation between tutor id and status\<close>

text \<open>
  The biconditional of the data model between \<open>assignedTutorId\<close> and \<open>status\<close>, as a
  test on one row.
\<close>

definition tutorInvariant :: "assignment \<Rightarrow> bool" where
  "tutorInvariant a =
     ((assignedTutorId a \<noteq> None) =
      (status a \<in> set [''Assigned'', ''In Progress'', ''Completed'', ''Rejected'']))"

section \<open>Shared facts\<close>

lemma assignments_updateAssignment:
  "assignments (updateAssignment s aid a) x = (if x = aid then Some a else assignments s x)"
  by (simp add: updateAssignment_def)

lemma assignments_sendEmail: "assignments (sendEmail s r subj) = assignments s"
  by (simp add: sendEmail_def)

lemma users_updateAssignment: "users (updateAssignment s aid a) = users s"
  by (simp add: updateAssignment_def users_def)

lemma users_sendEmail: "users (sendEmail s r subj) = users s"
  by (simp add: sendEmail_def users_def)

lemma outbox_updateAssignment: "outbox (updateAssignment s aid a) = outbox s"
  by (simp add: updateAssignment_def)

lemma outbox_sendEmail: "outbox (sendEmail s r subj) = outbox s @ [Mail r subj]"
  by (simp add: sendEmail_def)

lemma find_tutor_by_id:
  "map_of rows tid = Some t \<Longrightarrow> role t = TUTOR \<Longrightarrow> isApproved t \<Longrightarrow>
   List.find (\<lambda>(k, u). whereField (Val tid) k \<and> role u = TUTOR \<and> isApproved u) rows =
     Some (tid, t)"
  by (induction rows) (auto split: if_splits)

lemma markPaid_success:
  assumes "snd (markAssignmentAsPaid s aid) = Json 200 m"
  obtains a where "assignments s aid = Some a" and "\<not> isPaid a"
    and "fst (markAssignmentAsPaid s aid) = updateAssignment s aid (a\<lparr>isPaid := True\<rparr>)"
  using assms by (auto simp: markAssignmentAsPaid_def split: option.splits if_splits)

section \<open>Payment gate\<close>

text \<open>
  C5. mark-paid is idempotent in outcome. A first call on an assignment with
  \<open>isPaid = false\<close> answers 200 and stores the row with \<open>isPaid = true\<close>. A call on an
  assignment that is already paid answers 400 "already marked as paid" and returns the
  state it was given. In particular, after any successful call a second call answers that
  400, leaves the state as the first call left it, and the row still has \<open>isPaid = true\<close>.
\<close>

theorem markPaid_idempotent:
  "(assignments s aid = Some a \<and> \<not> isPaid a \<longrightarrow>
      snd (markAssignmentAsPaid s aid) =
        Json 200 (Message ''Assignment marked as paid successfully.'') \<and>
      assignments (fst (markAssignmentAsPaid s aid)) aid = Some (a\<lparr>isPaid := True\<rparr>)) \<and>
   (assignments s aid = Some a \<and> isPaid a \<longrightarrow>
      markAssignmentAsPaid s aid =
        (s, Json 400 (Message ''Assignment is already marked as paid.''))) \<and>
   (snd (markAssignmentAsPaid s aid) = Json 200 m \<longrightarrow>
      markAssignmentAsPaid (fst (markAssignmentAsPaid s aid)) aid =
        (fst (markAssignmentAsPaid s aid),
         Json 400 (Message ''Assignment is already marked as paid.'')) \<and>
      (\<exists>a1. assignments (fst (markAssignmentAsPaid s aid)) aid = Some a1 \<and> isPaid a1))"
proof (intro conjI impI)
  assume h: "snd (markAssignmentAsPaid s aid) = Json 200 m"
  then obtain a0 where a0: "assignments s aid = Some a0" "\<not> isPaid a0"
    and s1: "fst (markAssignmentAsPaid s aid) = updateAssignment s aid (a0\<lparr>isPaid := True\<rparr>)"
    by (rule markPaid_success)
  show "markAssignmentAsPaid (fst (markAssignmentAsPaid s aid)) aid =
        (fst (markAssignmentAsPaid s aid),
         Json 400 (Message ''Assignment is already marked as paid.''))"
    unfolding s1 by (simp add: markAssignmentAsPaid_def assignments_updateAssignment)
  show "\<exists>a1. assignments (fst (markAssignmentAsPaid s aid)) aid = Some a1 \<and> isPaid a1"
    unfolding s1 by (simp add: assignments_updateAssignment)
qed (simp_all add: markAssignmentAsPaid_def assignments_updateAssignment)

theorem markPaid_idempotent_witness:
  "snd (markAssignmentAsPaid (demo essay) ''a1'') =
     Json 200 (Message ''Assignment marked as paid successfully.'') \<and>
   assignments (fst (markAssignmentAsPaid (demo essay) ''a1'')) ''a1'' =
     Some (essay\<lparr>isPaid := True\<rparr>) \<and>
   markAssignmentAsPaid (fst (markAssignmentAsPaid (demo essay) ''a1'')) ''a1'' =
     (fst (markAssignmentAsPaid (demo essay) ''a1''),
      Json 400 (Message ''Assignment is already marked as paid.'')) \<and>
   markAssignmentAsPaid (demo lab) ''a2'' =
     (demo lab, Json 400 (Message ''Assignment is already marked as paid.''))"
proof -
  have e: "assignments (demo essay) ''a1'' = Some essay \<and> \<not> isPaid essay"
    by (simp add: demo_def essay_def)
  have p: "assignments (demo lab) ''a2'' = Some lab \<and> isPaid lab"
    by (simp add: demo_def lab_def)
  from e p
    markPaid_idempotent [of "demo essay" "''a1''" essay
      "Message ''Assignment marked as paid successfully.''"]
    markPaid_idempotent [of "demo lab" "''a2''" lab]
  show ?thesis by blast
qed

text \<open>
  C10. A successful mark-paid call (the 200 answer) changes only \<open>isPaid\<close> of the target
  row: the stored row is the old row with \<open>isPaid = true\<close>, so status, studentId,
  assignedTutorId, tutorCharge, fileUrl, completedFileUrl, completedAt, submittedAt and
  paidAt are as before (paidAt is not written, a null paidAt stays null); every other
  assignment row, the users table and the mails sent are unchanged.
\<close>

theorem markPaid_frame:
  assumes "snd (markAssignmentAsPaid s aid) = Json 200 m"
  shows "\<exists>a a1. assignments s aid = Some a \<and> \<not> isPaid a \<and>
           assignments (fst (markAssignmentAsPaid s aid)) aid = Some a1 \<and>
           a1 = a\<lparr>isPaid := True\<rparr> \<and> isPaid a1 \<and>
           status a1 = status a \<and> studentId a1 = studentId a \<and>
           assignedTutorId a1 = assignedTutorId a \<and> tutorCharge a1 = tutorCharge a \<and>
           fileUrl a1 = fileUrl a \<and> completedFileUrl a1 = completedFileUrl a \<and>
           completedAt a1 = completedAt a \<and> submittedAt a1 = submittedAt a \<and>
           paidAt a1 = paidAt a \<and>
           (\<forall>other. other \<noteq> aid \<longrightarrow>
              assignments (fst (markAssignmentAsPaid s aid)) other = assignments s other) \<and>
           users (fst (markAssignmentAsPaid s aid)) = users s \<and>
           outbox (fst (markAssignmentAsPaid s aid)) = outbox s \<and>
           ADMIN_EMAIL (fst (markAssignmentAsPaid s aid)) = ADMIN_EMAIL s"
proof -
  from assms obtain a where a: "assignments s aid = Some a" "\<not> isPaid a"
    and s1: "fst (markAssignmentAsPaid s aid) = updateAssignment s aid (a\<lparr>isPaid := True\<rparr>)"
    by (rule markPaid_success)
  show ?thesis
    unfolding s1 using a
    by (intro exI [of _ a] exI [of _ "a\<lparr>isPaid := True\<rparr>"])
       (simp add: updateAssignment_def users_def)
qed

theorem markPaid_frame_witness:
  "snd (markAssignmentAsPaid (demo essay) ''a1'') =
     Json 200 (Message ''Assignment marked as paid successfully.'') \<and>
   assignments (fst (markAssignmentAsPaid (demo essay) ''a1'')) ''a1'' =
     Some (essay\<lparr>isPaid := True\<rparr>) \<and>
   paidAt (essay\<lparr>isPaid := True\<rparr>) = None \<and>
   status (essay\<lparr>isPaid := True\<rparr>) = ''Pending'' \<and>
   assignments (fst (markAssignmentAsPaid (demo essay) ''a1'')) ''a2'' = Some lab \<and>
   outbox (fst (markAssignmentAsPaid (demo essay) ''a1'')) = []"
proof -
  have h: "snd (markAssignmentAsPaid (demo essay) ''a1'') =
             Json 200 (Message ''Assignment marked as paid successfully.'')"
    by (simp add: markAssignmentAsPaid_def demo_def essay_def)
  have e: "assignments (demo essay) ''a1'' = Some essay"
          "assignments (demo essay) ''a2'' = Some lab" "outbox (demo essay) = []"
    by (simp_all add: demo_def)
  have n: "''a2'' \<noteq> ''a1''" by simp
  from markPaid_frame [OF h] obtain a a1 where
    "assignments (demo essay) ''a1'' = Some a"
    "assignments (fst (markAssignmentAsPaid (demo essay) ''a1'')) ''a1'' = Some a1"
    "a1 = a\<lparr>isPaid := True\<rparr>"
    "\<forall>other. other \<noteq> ''a1'' \<longrightarrow>
       assignments (fst (markAssignmentAsPaid (demo essay) ''a1'')) other =
       assignments (demo essay) other"
    "outbox (fst (markAssignmentAsPaid (demo essay) ''a1'')) = outbox (demo essay)"
    by blast
  with e n h have
    "snd (markAssignmentAsPaid (demo essay) ''a1'') =
       Json 200 (Message ''Assignment marked as paid successfully.'') \<and>
     assignments (fst (markAssignmentAsPaid (demo essay) ''a1'')) ''a1'' =
       Some (essay\<lparr>isPaid := True\<rparr>) \<and>
     assignments (fst (markAssignmentAsPaid (demo essay) ''a1'')) ''a2'' = Some lab \<and>
     outbox (fst (markAssignmentAsPaid (demo essay) ''a1'')) = []"
    by simp
  moreover have "paidAt (essay\<lparr>isPaid := True\<rparr>) = None \<and>
                 status (essay\<lparr>isPaid := True\<rparr>) = ''Pending''"
    by (simp add: essay_def)
  ultimately show ?thesis by blast
qed

section \<open>Reading one assignment\<close>

text \<open>
  C9. The per-assignment read endpoint does not depend on the caller: any two
  authenticated callers, whatever their roles and ids, get the same answer for the same
  assignment id. For an existing assignment the answer is the full row, with
  \<open>completedFileUrl\<close> and \<open>isPaid\<close>, together with its student and tutor; no ownership,
  role or payment test is made. The only failing case is an id with no row, answered 404.
\<close>

theorem getAssignmentById_caller_independent:
  "(\<not> falsy (uemail d1) \<and> \<not> falsy (uemail d2) \<longrightarrow>
      route_getById s (Token d1) aid = route_getById s (Token d2) aid) \<and>
   (\<not> falsy (uemail d1) \<and> assignments s aid = Some a \<longrightarrow>
      route_getById s (Token d1) aid =
        (s, Json 200 (AssignmentJson aid a (users s (studentId a))
                        (case assignedTutorId a of None \<Rightarrow> None | Some t \<Rightarrow> users s t)))) \<and>
   (\<not> falsy (uemail d1) \<and> assignments s aid = None \<longrightarrow>
      route_getById s (Token d1) aid = (s, Json 404 (Message ''Assignment not found'')))"
  by (simp add: route_getById_def guarded_def authMiddleware_def getAssignmentById_def)

theorem getAssignmentById_caller_independent_witness:
  "route_getById (demo solved) (Token bobToken) ''a1'' =
     route_getById (demo solved) (Token tinaToken) ''a1'' \<and>
   route_getById (demo solved) (Token bobToken) ''a1'' =
     (demo solved, Json 200 (AssignmentJson ''a1'' solved (Some alice) (Some tina))) \<and>
   completedFileUrl solved = Some ''https://files.example/solution.pdf'' \<and>
   isPaid solved = False \<and>
   route_getById (demo solved) (Token bobToken) ''a9'' =
     (demo solved, Json 404 (Message ''Assignment not found''))"
proof -
  have t: "\<not> falsy (uemail bobToken)" "\<not> falsy (uemail tinaToken)"
    by (simp_all add: falsy_def bobToken_def tinaToken_def)
  have a: "assignments (demo solved) ''a1'' = Some solved"
          "assignments (demo solved) ''a9'' = None"
    by (simp_all add: demo_def)
  have r: "users (demo solved) (studentId solved) = Some alice"
          "assignedTutorId solved = Some ''t1''" "users (demo solved) ''t1'' = Some tina"
          "completedFileUrl solved = Some ''https://files.example/solution.pdf''"
          "isPaid solved = False"
    by (simp_all add: users_def demo_def demoUsers_def solved_def priced_def assigned_def
          essay_def)
  note th = getAssignmentById_caller_independent [of bobToken tinaToken "demo solved"]
  have 1: "route_getById (demo solved) (Token bobToken) ''a1'' =
             route_getById (demo solved) (Token tinaToken) ''a1''"
    using t th [of "''a1''"] by blast
  have "route_getById (demo solved) (Token bobToken) ''a1'' =
          (demo solved, Json 200 (AssignmentJson ''a1'' solved
             (users (demo solved) (studentId solved))
             (case assignedTutorId solved of None \<Rightarrow> None
              | Some t \<Rightarrow> users (demo solved) t)))"
    using t a th [of "''a1''" solved] by blast
  then have 2: "route_getById (demo solved) (Token bobToken) ''a1'' =
                  (demo solved, Json 200 (AssignmentJson ''a1'' solved (Some alice) (Some tina)))"
    by (simp add: r)
  have 3: "route_getById (demo solved) (Token bobToken) ''a9'' =
             (demo solved, Json 404 (Message ''Assignment not found''))"
    using t a th [of "''a9''"] by blast
  from 1 2 3 r(4,5) show ?thesis by blast
qed

section \<open>Tutor ownership of transitions\<close>

text \<open>
  C2. Only the tutor whose id is the assignment's \<open>assignedTutorId\<close> may price, complete
  or reject it; any other caller gets Forbidden and the record is unchanged. The code does
  not keep this for complete and reject: evaluated on Alice's assignment, assigned to Tina
  (\<open>t1\<close>), with Tom (\<open>t2\<close>, another tutor) as the caller, reject answers 200 and stores
  status Rejected, and complete answers 200 and stores status Completed with Tom's file.
  review-and-price does refuse Tom, with 404, and changes nothing.
\<close>

theorem other_tutor_rejects_and_completes:
  "assignedTutorId assigned = Some ''t1'' \<and> assignedTutorId priced = Some ''t1'' \<and>
   uid tomToken = Some ''t2'' \<and>
   route_reviewAndPrice (demo assigned) (Token tomToken) ''a1'' (Num 50) =
     (demo assigned, Json 404 (Message ''Assignment not found or not assigned to you.'')) \<and>
   snd (route_reject (demo assigned) (Token tomToken) ''a1'') =
     Json 200 (Message ''Assignment rejected successfully.'') \<and>
   assignments (fst (route_reject (demo assigned) (Token tomToken) ''a1'')) ''a1'' =
     Some (assigned\<lparr>status := ''Rejected''\<rparr>) \<and>
   snd (route_complete (demo priced) (Token tomToken) ''a1''
          (Val ''https://files.example/other.pdf'') 300) =
     Json 200 (MessageAssignment ''Assignment marked as completed.'' ''a1''
       (priced\<lparr>status := ''Completed'',
               completedFileUrl := Some ''https://files.example/other.pdf'',
               completedAt := Some 300\<rparr>) (Some alice)) \<and>
   assignments (fst (route_complete (demo priced) (Token tomToken) ''a1''
                       (Val ''https://files.example/other.pdf'') 300)) ''a1'' =
     Some (priced\<lparr>status := ''Completed'',
                  completedFileUrl := Some ''https://files.example/other.pdf'',
                  completedAt := Some 300\<rparr>)"
proof -
  have f: "assignedTutorId assigned = Some ''t1''" "assignedTutorId priced = Some ''t1''"
          "status assigned = ''Assigned''" "studentId priced = ''s1''"
    by (simp_all add: priced_def assigned_def essay_def)
  have t: "uid tomToken = Some ''t2''" "urole tomToken = TUTOR"
          "uemail tomToken = Some ''tom@example.com''"
    by (simp_all add: tomToken_def)
  have a: "assignments (demo assigned) ''a1'' = Some assigned"
          "assignments (demo priced) ''a1'' = Some priced"
          "users (demo priced) ''s1'' = Some alice" "email alice = ''alice@example.com''"
    by (simp_all add: users_def demo_def demoUsers_def alice_def)
  show ?thesis
    by (simp add: f t a route_reviewAndPrice_def route_reject_def route_complete_def
          guarded_def authMiddleware_def roleMiddleware_def falsy_def
          reviewAndSetPrice_def rejectAssignment_def completeAssignment_def Let_def
          assignments_updateAssignment assignments_sendEmail)
qed

section \<open>Source-state guards\<close>

text \<open>
  C3 (as amended). review-and-price and reject are guarded by the source state: a request
  on an assignment whose status is not Assigned changes nothing and is refused; from the
  assigned tutor with a valid price, and for reject, the answer is 400 "not in an
  assignable state". assign-to-tutor and mark-paid carry no source-state guard:
  assign-to-tutor succeeds in any status when the assignment and an approved tutor exist,
  and mark-paid succeeds in any status while \<open>isPaid\<close> is false.
\<close>

theorem source_state_guards:
  "(assignments s aid = Some a \<and> status a \<noteq> ''Assigned'' \<longrightarrow>
      rejectAssignment s aid =
        (s, Json 400 (Message ''Assignment is not in an assignable state.''))) \<and>
   (assignments s aid = Some a \<and> status a \<noteq> ''Assigned'' \<longrightarrow>
      fst (reviewAndSetPrice s d aid p) = s \<and>
      (\<exists>c m. snd (reviewAndSetPrice s d aid p) = Json c (Message m) \<and> c \<noteq> 200)) \<and>
   (assignments s aid = Some a \<and> status a \<noteq> ''Assigned'' \<and> \<not> falsy (uid d) \<and>
    \<not> invalidPrice p \<and> assignedTutorId a = uid d \<longrightarrow>
      reviewAndSetPrice s d aid p =
        (s, Json 400 (Message ''Assignment is not in an assignable state.''))) \<and>
   (assignments s aid = Some a \<and> users s tid = Some t \<and> role t = TUTOR \<and> isApproved t \<longrightarrow>
      snd (assignAssignmentToTutor s aid (Val tid)) =
        Json 200 (Message ''Assignment assigned to tutor'') \<and>
      assignments (fst (assignAssignmentToTutor s aid (Val tid))) aid =
        Some (a\<lparr>assignedTutorId := Some tid, status := ''Assigned''\<rparr>)) \<and>
   (assignments s aid = Some a \<and> \<not> isPaid a \<longrightarrow>
      snd (markAssignmentAsPaid s aid) =
        Json 200 (Message ''Assignment marked as paid successfully.'') \<and>
      assignments (fst (markAssignmentAsPaid s aid)) aid = Some (a\<lparr>isPaid := True\<rparr>))"
proof -
  have assign:
    "snd (assignAssignmentToTutor s aid (Val tid)) =
       Json 200 (Message ''Assignment assigned to tutor'') \<and>
     assignments (fst (assignAssignmentToTutor s aid (Val tid))) aid =
       Some (a\<lparr>assignedTutorId := Some tid, status := ''Assigned''\<rparr>)"
    if "assignments s aid = Some a" "users s tid = Some t" "role t = TUTOR" "isApproved t"
  proof -
    from that(2-4) have
      "List.find (\<lambda>(k, u). whereField (Val tid) k \<and> role u = TUTOR \<and> isApproved u)
         (userRows s) = Some (tid, t)"
      unfolding users_def by (rule find_tutor_by_id)
    with that(1) show ?thesis
      by (simp add: assignAssignmentToTutor_def assignments_updateAssignment
            assignments_sendEmail)
  qed
  show ?thesis
    using assign
    by (simp add: rejectAssignment_def reviewAndSetPrice_def markAssignmentAsPaid_def
          assignments_updateAssignment assignments_sendEmail)
qed

theorem source_state_guards_witness:
  "rejectAssignment (demo essay) ''a1'' =
     (demo essay, Json 400 (Message ''Assignment is not in an assignable state.'')) \<and>
   reviewAndSetPrice (demo priced) tinaToken ''a1'' (Num 60) =
     (demo priced, Json 400 (Message ''Assignment is not in an assignable state.'')) \<and>
   snd (assignAssignmentToTutor (demo rejected) ''a1'' (Val ''t2'')) =
     Json 200 (Message ''Assignment assigned to tutor'') \<and>
   snd (markAssignmentAsPaid (demo essay) ''a1'') =
     Json 200 (Message ''Assignment marked as paid successfully.'')"
proof -
  have a: "assignments (demo essay) ''a1'' = Some essay"
          "assignments (demo priced) ''a1'' = Some priced"
          "assignments (demo rejected) ''a1'' = Some rejected"
          "users (demo rejected) ''t2'' = Some tom"
    by (simp_all add: users_def demo_def demoUsers_def)
  have f: "status essay \<noteq> ''Assigned''" "\<not> isPaid essay" "status priced \<noteq> ''Assigned''"
          "assignedTutorId priced = uid tinaToken" "\<not> falsy (uid tinaToken)"
          "\<not> invalidPrice (Num 60)" "role tom = TUTOR" "isApproved tom"
    by (simp_all add: essay_def assigned_def priced_def tinaToken_def falsy_def tom_def)
  from a f
    source_state_guards [of "demo essay" "''a1''" essay]
    source_state_guards [of "demo priced" "''a1''" priced tinaToken "Num 60"]
    source_state_guards [of "demo rejected" "''a1''" rejected _ _ "''t2''" tom]
  show ?thesis by blast
qed

text \<open>
  C3 as stated fails: assign-to-tutor does not require the source state Pending, nor
  mark-paid the source state Completed. The admin re-routes Alice's Rejected assignment
  to Tom, and marks the Rejected assignment paid; each request succeeds and rewrites the
  row.
\<close>

theorem assign_from_rejected_counterexample:
  "status rejected = ''Rejected'' \<and> assignedTutorId rejected = Some ''t1'' \<and>
   snd (route_assign (demo rejected) (Token adminToken) ''a1'' (Val ''t2'')) =
     Json 200 (Message ''Assignment assigned to tutor'') \<and>
   assignments
     (fst (route_assign (demo rejected) (Token adminToken) ''a1'' (Val ''t2''))) ''a1'' =
     Some (rejected\<lparr>assignedTutorId := Some ''t2'', status := ''Assigned''\<rparr>) \<and>
   snd (route_markPaid (demo rejected) (Token adminToken) ''a1'') =
     Json 200 (Message ''Assignment marked as paid successfully.'') \<and>
   assignments (fst (route_markPaid (demo rejected) (Token adminToken) ''a1'')) ''a1'' =
     Some (rejected\<lparr>isPaid := True\<rparr>)"
proof -
  have f: "status rejected = ''Rejected''" "assignedTutorId rejected = Some ''t1''"
          "\<not> isPaid rejected"
    by (simp_all add: rejected_def assigned_def essay_def)
  have a: "assignments (demo rejected) ''a1'' = Some rejected"
          "userRows (demo rejected) = demoUsers"
    by (simp_all add: demo_def)
  have u: "List.find (\<lambda>(k, u). whereField (Val ''t2'') k \<and> role u = TUTOR \<and> isApproved u)
             demoUsers = Some (''t2'', tom)"
    by (simp add: demoUsers_def alice_def bob_def tina_def tom_def)
  show ?thesis
    by (simp add: f a u route_assign_def guarded_def authMiddleware_def roleMiddleware_def
          falsy_def adminToken_def assignAssignmentToTutor_def route_markPaid_def
          markAssignmentAsPaid_def assignments_updateAssignment assignments_sendEmail
          del: whereField.simps)
qed

section \<open>When an assignment becomes paid\<close>

text \<open>
  C4 (as amended). \<open>isPaid\<close> becomes true through mark-paid (the assignment exists and
  \<open>isPaid\<close> is false) and through payment verification (the gateway reports
  \<open>success\<close> with the assignment's id and the assignment exists). Neither reads the
  status: the row keeps its status, whatever it is, and has \<open>isPaid = true\<close> afterwards.
\<close>

theorem isPaid_set_in_any_status:
  "(assignments s aid = Some a \<and> \<not> isPaid a \<longrightarrow>
      (\<exists>a1. assignments (fst (markAssignmentAsPaid s aid)) aid = Some a1 \<and>
            isPaid a1 \<and> status a1 = status a)) \<and>
   (assignments s aid = Some a \<and> r \<noteq> [] \<and> aid \<noteq> [] \<and>
    verifyPayment r = Data ''success'' (Some aid) \<longrightarrow>
      (\<exists>a1. assignments (fst (verifyPaymentForAssignment verifyPayment s (Some r))) aid =
              Some a1 \<and>
            isPaid a1 \<and> status a1 = status a))"
  by (auto simp: markAssignmentAsPaid_def verifyPaymentForAssignment_def Let_def
        assignments_updateAssignment assignments_sendEmail split: option.splits)

theorem isPaid_set_in_any_status_witness:
  "status essay = ''Pending'' \<and> status priced = ''In Progress'' \<and>
   (\<exists>a1. assignments (fst (markAssignmentAsPaid (demo essay) ''a1'')) ''a1'' = Some a1 \<and>
         isPaid a1 \<and> status a1 = ''Pending'') \<and>
   (\<exists>a1. assignments
           (fst (verifyPaymentForAssignment demoGateway (demo priced) (Some ''ref-1'')))
           ''a1'' = Some a1 \<and>
         isPaid a1 \<and> status a1 = ''In Progress'')"
proof -
  have a: "assignments (demo essay) ''a1'' = Some essay \<and> \<not> isPaid essay"
          "assignments (demo priced) ''a1'' = Some priced \<and> ''ref-1'' \<noteq> [] \<and> ''a1'' \<noteq> [] \<and>
           demoGateway ''ref-1'' = Data ''success'' (Some ''a1'')"
    by (simp_all add: demo_def essay_def demoGateway_def)
  have f: "status essay = ''Pending''" "status priced = ''In Progress''"
    by (simp_all add: essay_def assigned_def priced_def)
  from a
    isPaid_set_in_any_status [of "demo essay" "''a1''" essay]
    isPaid_set_in_any_status [of "demo priced" "''a1''" priced "''ref-1''" demoGateway]
  show ?thesis unfolding f by blast
qed

text \<open>
  C4 as stated fails: mark-paid by Alice on her Pending assignment succeeds, and a
  successful payment verification marks her In Progress assignment paid.
\<close>

theorem paid_before_completed_counterexample:
  "status (essay\<lparr>isPaid := True\<rparr>) = ''Pending'' \<and>
   status (priced\<lparr>isPaid := True\<rparr>) = ''In Progress'' \<and>
   assignments (fst (route_markPaid (demo essay) (Token aliceToken) ''a1'')) ''a1'' =
     Some (essay\<lparr>isPaid := True\<rparr>) \<and>
   assignments
     (fst (route_verify demoGateway (demo priced) (Token aliceToken) (Some ''ref-1'')))
     ''a1'' = Some (priced\<lparr>isPaid := True\<rparr>)"
proof -
  have f: "status (essay\<lparr>isPaid := True\<rparr>) = ''Pending''"
          "status (priced\<lparr>isPaid := True\<rparr>) = ''In Progress''" "\<not> isPaid essay"
          "completedFileUrl priced = None" "studentId priced = ''s1''"
    by (simp_all add: essay_def assigned_def priced_def)
  have a: "assignments (demo essay) ''a1'' = Some essay"
          "assignments (demo priced) ''a1'' = Some priced"
          "users (demo priced) ''s1'' = Some alice"
          "demoGateway ''ref-1'' = Data ''success'' (Some ''a1'')"
    by (simp_all add: users_def demo_def demoUsers_def demoGateway_def)
  show ?thesis
    by (simp add: f a route_markPaid_def route_verify_def guarded_def authMiddleware_def
          roleMiddleware_def falsy_def aliceToken_def markAssignmentAsPaid_def
          verifyPaymentForAssignment_def Let_def assignments_updateAssignment)
qed

text \<open>
  C6. Verifying a successful reference a second time must not send the availability mail
  again. The code at the failing input: the same successful reference is verified twice
  for Alice's completed assignment; both calls answer 200, the second call issues the
  update again (the row's values stay the same) and the outbox holds the availability
  mail twice.
\<close>

theorem verify_twice_mails_twice:
  "outbox (demo solved) = [] \<and>
   outbox (fst (verifyPaymentForAssignment demoGateway (demo solved) (Some ''ref-1''))) =
     [Mail ''alice@example.com'' ''Assignment Solution Available''] \<and>
   assignments (fst (verifyPaymentForAssignment demoGateway (demo solved) (Some ''ref-1'')))
     ''a1'' = Some (solved\<lparr>isPaid := True\<rparr>) \<and>
   snd (verifyPaymentForAssignment demoGateway
          (fst (verifyPaymentForAssignment demoGateway (demo solved) (Some ''ref-1'')))
          (Some ''ref-1'')) =
     Json 200 (MessageAssignment ''Payment verified successfully!'' ''a1''
                 (solved\<lparr>isPaid := True\<rparr>) (Some alice)) \<and>
   assignments
     (fst (verifyPaymentForAssignment demoGateway
             (fst (verifyPaymentForAssignment demoGateway (demo solved) (Some ''ref-1'')))
             (Some ''ref-1''))) ''a1'' = Some (solved\<lparr>isPaid := True\<rparr>) \<and>
   outbox
     (fst (verifyPaymentForAssignment demoGateway
             (fst (verifyPaymentForAssignment demoGateway (demo solved) (Some ''ref-1'')))
             (Some ''ref-1''))) =
     [Mail ''alice@example.com'' ''Assignment Solution Available'',
      Mail ''alice@example.com'' ''Assignment Solution Available'']"
proof -
  have g: "demoGateway ''ref-1'' = Data ''success'' (Some ''a1'')"
    by (simp add: demoGateway_def)
  have f: "studentId solved = ''s1''"
          "completedFileUrl solved = Some ''https://files.example/solution.pdf''"
    by (simp_all add: solved_def priced_def assigned_def essay_def)
  have a: "assignments (demo solved) ''a1'' = Some solved"
          "users (demo solved) ''s1'' = Some alice" "email alice = ''alice@example.com''"
          "outbox (demo solved) = []"
    by (simp_all add: users_def demo_def demoUsers_def alice_def)
  have first: "verifyPaymentForAssignment demoGateway (demo solved) (Some ''ref-1'') =
     (sendEmail (updateAssignment (demo solved) ''a1'' (solved\<lparr>isPaid := True\<rparr>))
        ''alice@example.com'' ''Assignment Solution Available'',
      Json 200 (MessageAssignment ''Payment verified successfully!'' ''a1''
                  (solved\<lparr>isPaid := True\<rparr>) (Some alice)))"
    by (simp add: verifyPaymentForAssignment_def g f a falsy_def Let_def)
  show ?thesis
    unfolding first
    by (simp add: verifyPaymentForAssignment_def g f a falsy_def Let_def
          assignments_updateAssignment assignments_sendEmail users_updateAssignment
          users_sendEmail outbox_sendEmail outbox_updateAssignment)
qed

section \<open>Downloading the completed file\<close>

text \<open>
  C1. The completed file may be disclosed only to the owning student of a paid
  assignment: the owner gets PaymentRequired while unpaid and the redirect when paid,
  another student gets NotFound, and no endpoint discloses \<open>completedFileUrl\<close> without
  these checks. The code keeps this on \<open>GET /download/completed/{id}\<close>
  (\<open>downloadSolutionFile\<close>) for callers whose token carries an id, and not on
  \<open>GET /download/{id}\<close> (\<open>downloadAssignment\<close>). Evaluated on Alice's completed, unpaid
  assignment: Bob, another student, is redirected to the completed file by
  \<open>GET /download/{id}\<close>, while the gated endpoint answers him 404 and answers Alice 403
  until the assignment is paid. On the gated endpoint a token without an id (the admin's)
  passes the owner filter and is redirected once the assignment is paid.
\<close>

theorem download_without_gate:
  "isPaid solved = False \<and> studentId solved = ''s1'' \<and> uid bobToken = Some ''s2'' \<and>
   completedFileUrl solved = Some ''https://files.example/solution.pdf'' \<and>
   route_download (demo solved) (Token bobToken) ''a1'' =
     (demo solved, Redirect ''https://files.example/solution.pdf'') \<and>
   route_downloadCompleted (demo solved) (Token bobToken) ''a1'' =
     (demo solved, Json 404 (Message ''Assignment not found.'')) \<and>
   route_downloadCompleted (demo solved) (Token aliceToken) ''a1'' =
     (demo solved, Json 403 (Message
        ''Access denied. Payment required to download the solution.'')) \<and>
   route_downloadCompleted (demo (solved\<lparr>isPaid := True\<rparr>)) (Token aliceToken) ''a1'' =
     (demo (solved\<lparr>isPaid := True\<rparr>), Redirect ''https://files.example/solution.pdf'') \<and>
   uid adminToken = None \<and>
   route_downloadCompleted (demo (solved\<lparr>isPaid := True\<rparr>)) (Token adminToken) ''a1'' =
     (demo (solved\<lparr>isPaid := True\<rparr>), Redirect ''https://files.example/solution.pdf'')"
proof -
  have f: "isPaid solved = False" "studentId solved = ''s1''"
          "completedFileUrl solved = Some ''https://files.example/solution.pdf''"
    by (simp_all add: solved_def priced_def assigned_def essay_def)
  have a: "assignments (demo b) ''a1'' = Some b" for b
    by (simp add: demo_def)
  show ?thesis
    by (simp add: f a route_download_def route_downloadCompleted_def guarded_def
          authMiddleware_def falsy_def whereEq_def bobToken_def aliceToken_def
          adminToken_def downloadAssignment_def downloadSolutionFile_def)
qed

section \<open>Assigning a tutor\<close>

text \<open>
  C8. An assign-to-tutor request whose target user does not exist, is not a TUTOR or is
  not approved must fail and leave the assignment unchanged; for an existing approved
  tutor the row gets that tutor's id and status Assigned. The code does this when the
  body carries a \<open>tutorId\<close>: the unapproved tutor \<open>t3\<close>, the student \<open>s2\<close> and the
  unknown id are refused with 404 and nothing is written, and the approved tutor \<open>t1\<close> is
  assigned. It does not when the body carries no \<open>tutorId\<close>: the admin's request on
  Alice's Pending assignment finds the first approved tutor (Tina), answers 200, mails her
  and the admin, and stores status Assigned with \<open>assignedTutorId\<close> still null.
\<close>

theorem assign_without_tutorId:
  "assignAssignmentToTutor (demo essay) ''a1'' (Val ''t3'') =
     (demo essay, Json 404 (Message ''Tutor not found or not approved.'')) \<and>
   assignAssignmentToTutor (demo essay) ''a1'' (Val ''s2'') =
     (demo essay, Json 404 (Message ''Tutor not found or not approved.'')) \<and>
   assignAssignmentToTutor (demo essay) ''a1'' (Val ''nobody'') =
     (demo essay, Json 404 (Message ''Tutor not found or not approved.'')) \<and>
   snd (route_assign (demo essay) (Token adminToken) ''a1'' (Val ''t1'')) =
     Json 200 (Message ''Assignment assigned to tutor'') \<and>
   assignments (fst (route_assign (demo essay) (Token adminToken) ''a1'' (Val ''t1''))) ''a1'' =
     Some (essay\<lparr>assignedTutorId := Some ''t1'', status := ''Assigned''\<rparr>) \<and>
   snd (route_assign (demo essay) (Token adminToken) ''a1'' Undefined) =
     Json 200 (Message ''Assignment assigned to tutor'') \<and>
   assignments (fst (route_assign (demo essay) (Token adminToken) ''a1'' Undefined)) ''a1'' =
     Some (essay\<lparr>assignedTutorId := None, status := ''Assigned''\<rparr>) \<and>
   outbox (fst (route_assign (demo essay) (Token adminToken) ''a1'' Undefined)) =
     [Mail ''tina@example.com'' ''New Assignment Assigned to You'',
      Mail ''admin@aplusplanner.com'' ''Assignment Assigned Notification'']"
proof -
  have a: "assignments (demo essay) ''a1'' = Some essay" "userRows (demo essay) = demoUsers"
          "outbox (demo essay) = []" "ADMIN_EMAIL (demo essay) = ''admin@aplusplanner.com''"
          "assignedTutorId essay = None"
    by (simp_all add: demo_def essay_def)
  have u: "List.find (\<lambda>(k, u). whereField (Val ''t3'') k \<and> role u = TUTOR \<and> isApproved u)
             demoUsers = None"
          "List.find (\<lambda>(k, u). whereField (Val ''s2'') k \<and> role u = TUTOR \<and> isApproved u)
             demoUsers = None"
          "List.find (\<lambda>(k, u). whereField (Val ''nobody'') k \<and> role u = TUTOR \<and> isApproved u)
             demoUsers = None"
          "List.find (\<lambda>(k, u). whereField (Val ''t1'') k \<and> role u = TUTOR \<and> isApproved u)
             demoUsers = Some (''t1'', tina)"
          "List.find (\<lambda>(k, u). whereField Undefined k \<and> role u = TUTOR \<and> isApproved u)
             demoUsers = Some (''t1'', tina)"
    by (simp_all add: demoUsers_def alice_def bob_def tina_def tom_def uma_def)
  have e: "email tina = ''tina@example.com''"
    by (simp add: tina_def)
  show ?thesis
    by (simp add: a u e route_assign_def guarded_def authMiddleware_def roleMiddleware_def
          falsy_def adminToken_def assignAssignmentToTutor_def assignments_updateAssignment
          assignments_sendEmail outbox_sendEmail outbox_updateAssignment
          del: whereField.simps)
qed

section \<open>Tutor id and status\<close>

text \<open>
  C7. \<open>assignedTutorId\<close> is non-null iff status is one of Assigned, In Progress,
  Completed, Rejected, and every operation that writes either column keeps it so. The code
  at the failing inputs, both on Alice's Pending assignment, which satisfies the
  biconditional: the admin's assign-to-tutor request without a \<open>tutorId\<close> stores status
  Assigned with no tutor, and a tutor's complete request stores status Completed with no
  tutor. Either row breaks the biconditional.
\<close>

theorem status_written_without_tutor:
  "tutorInvariant essay \<and> status essay = ''Pending'' \<and> assignedTutorId essay = None \<and>
   snd (route_assign (demo essay) (Token adminToken) ''a1'' Undefined) =
     Json 200 (Message ''Assignment assigned to tutor'') \<and>
   assignments (fst (route_assign (demo essay) (Token adminToken) ''a1'' Undefined)) ''a1'' =
     Some (essay\<lparr>assignedTutorId := None, status := ''Assigned''\<rparr>) \<and>
   tutorInvariant (essay\<lparr>assignedTutorId := None, status := ''Assigned''\<rparr>) = False \<and>
   snd (route_complete (demo essay) (Token tomToken) ''a1''
          (Val ''https://files.example/other.pdf'') 300) =
     Json 200 (MessageAssignment ''Assignment marked as completed.'' ''a1''
       (essay\<lparr>status := ''Completed'',
              completedFileUrl := Some ''https://files.example/other.pdf'',
              completedAt := Some 300\<rparr>) (Some alice)) \<and>
   assignments (fst (route_complete (demo essay) (Token tomToken) ''a1''
                       (Val ''https://files.example/other.pdf'') 300)) ''a1'' =
     Some (essay\<lparr>status := ''Completed'',
                 completedFileUrl := Some ''https://files.example/other.pdf'',
                 completedAt := Some 300\<rparr>) \<and>
   tutorInvariant (essay\<lparr>status := ''Completed'',
                         completedFileUrl := Some ''https://files.example/other.pdf'',
                         completedAt := Some 300\<rparr>) = False"
proof -
  have i: "tutorInvariant essay" "status essay = ''Pending''" "assignedTutorId essay = None"
          "studentId essay = ''s1''"
          "tutorInvariant (essay\<lparr>assignedTutorId := None, status := ''Assigned''\<rparr>) = False"
          "tutorInvariant (essay\<lparr>status := ''Completed'',
                                completedFileUrl := Some ''https://files.example/other.pdf'',
                                completedAt := Some 300\<rparr>) = False"
    by (simp_all add: tutorInvariant_def essay_def)
  have a: "assignments (demo essay) ''a1'' = Some essay" "userRows (demo essay) = demoUsers"
          "users (demo essay) ''s1'' = Some alice" "email alice = ''alice@example.com''"
    by (simp_all add: users_def demo_def demoUsers_def alice_def)
  have u: "List.find (\<lambda>(k, u). whereField Undefined k \<and> role u = TUTOR \<and> isApproved u)
             demoUsers = Some (''t1'', tina)"
    by (simp add: demoUsers_def alice_def bob_def tina_def)
  show ?thesis
    by (simp add: i a u route_assign_def route_complete_def guarded_def authMiddleware_def
          roleMiddleware_def falsy_def adminToken_def tomToken_def
          assignAssignmentToTutor_def completeAssignment_def Let_def
          assignments_updateAssignment assignments_sendEmail
          del: whereField.simps)
qed

end
